theory Spec2Isabelle
  imports Complex_Main
begin

section \<open>JavaScript numbers\<close>

text \<open>
  A JavaScript \<^verbatim>\<open>number\<close> is modelled as either \<open>NaN\<close> or a finite number \<open>Num q\<close> with
  \<open>q\<close> rational. Finite arithmetic is exact: the rounding of IEEE-754 doubles, the two
  infinities and the negative zero are not represented. The payroll engine divides by the
  literals 26, 8 and 100 only; a zero divisor (which JavaScript maps to an infinity or to
  NaN) is mapped to \<open>NaN\<close>. \<open>NaN\<close> is absorbing for every arithmetic operation and every
  ordering comparison with \<open>NaN\<close> is false, as in JavaScript.
\<close>

datatype jsnum = NaN | Num rat

instantiation jsnum :: "{comm_monoid_add, minus, times, inverse, ord}"
begin

definition zero_jsnum :: jsnum where
  "zero_jsnum = Num 0"

fun plus_jsnum :: "jsnum \<Rightarrow> jsnum \<Rightarrow> jsnum" where
  "plus_jsnum (Num a) (Num b) = Num (a + b)"
| "plus_jsnum _ _ = NaN"

fun minus_jsnum :: "jsnum \<Rightarrow> jsnum \<Rightarrow> jsnum" where
  "minus_jsnum (Num a) (Num b) = Num (a - b)"
| "minus_jsnum _ _ = NaN"

fun times_jsnum :: "jsnum \<Rightarrow> jsnum \<Rightarrow> jsnum" where
  "times_jsnum (Num a) (Num b) = Num (a * b)"
| "times_jsnum _ _ = NaN"

fun divide_jsnum :: "jsnum \<Rightarrow> jsnum \<Rightarrow> jsnum" where
  "divide_jsnum (Num a) (Num b) = (if b = 0 then NaN else Num (a / b))"
| "divide_jsnum _ _ = NaN"

definition inverse_jsnum :: "jsnum \<Rightarrow> jsnum" where
  "inverse_jsnum (x :: jsnum) = divide (Num 1) x"

fun less_jsnum :: "jsnum \<Rightarrow> jsnum \<Rightarrow> bool" where
  "less_jsnum (Num a) (Num b) = (a < b)"
| "less_jsnum _ _ = False"

fun less_eq_jsnum :: "jsnum \<Rightarrow> jsnum \<Rightarrow> bool" where
  "less_eq_jsnum (Num a) (Num b) = (a \<le> b)"
| "less_eq_jsnum _ _ = False"

instance
proof
  fix u v w :: jsnum
  show "u + v = v + u"
    by (cases u; cases v; simp)
  show "(u + v) + w = u + (v + w)"
    by (cases u; cases v; cases w; simp)
  show "0 + u = u"
    unfolding zero_jsnum_def by (cases u; simp)
qed

end

text \<open>\<^verbatim>\<open>isNaN\<close> on a number.\<close>

fun isNaN :: "jsnum \<Rightarrow> bool" where
  "isNaN NaN = True"
| "isNaN (Num _) = False"

text \<open>
  The idiom \<^verbatim>\<open>x || 0\<close> on a number: \<open>NaN\<close> and \<open>0\<close> are falsy, so the result is \<open>0\<close> for
  them and \<open>x\<close> otherwise.
\<close>

fun or0 :: "jsnum \<Rightarrow> jsnum" where
  "or0 NaN = Num 0"
| "or0 (Num q) = (if q = 0 then Num 0 else Num q)"

text \<open>\<^verbatim>\<open>Math.max(a, b)\<close>: \<open>NaN\<close> if either argument is \<open>NaN\<close>.\<close>

fun Math_max :: "jsnum \<Rightarrow> jsnum \<Rightarrow> jsnum" where
  "Math_max (Num a) (Num b) = Num (max a b)"
| "Math_max _ _ = NaN"

text \<open>\<^verbatim>\<open>s || t\<close> on an optional string: \<^verbatim>\<open>undefined\<close> and the empty string are falsy.\<close>

fun or_str :: "string option \<Rightarrow> string option \<Rightarrow> string option" where
  "or_str None t = t"
| "or_str (Some s) t = (if s = [] then t else Some s)"


section \<open>Salary entries and the entry calculator (services/logic.ts)\<close>

text \<open>
  The interfaces of the types module. Every interface extends \<^verbatim>\<open>SheetRow\<close>; an optional
  field is an \<open>option\<close>. Fields called \<^verbatim>\<open>id\<close> carry the name of their interface, since
  \<open>id\<close> is the identity function of HOL, and the field \<^verbatim>\<open>term\<close> of an account is
  \<open>account_term\<close>, since \<open>term\<close> is a keyword. Two interfaces may have fields of one
  name; the name of the interface then qualifies the field (\<open>Center.branchId\<close>).
\<close>

record SheetRow =
  rowIndex :: "jsnum option"
  status :: "string option"

record CommissionStructure = SheetRow +
  typeCode :: string
  own :: jsnum
  office :: jsnum

record SalaryEntry = SheetRow +
  entry_id :: string
  salary_sheet_id :: string
  employee_id :: string
  basic_salary :: jsnum
  commission_type :: "string option"
  own_somity_count :: jsnum
  own_somity_collection :: jsnum
  office_somity_count :: jsnum
  office_somity_collection :: jsnum
  center_count :: jsnum
  center_collection :: jsnum
  total_loan_collection :: jsnum
  book_1_5 :: jsnum
  book_3 :: jsnum
  book_5 :: jsnum
  book_8 :: jsnum
  book_10 :: jsnum
  book_12 :: jsnum
  book_no_bonus :: jsnum
  input_late_hours :: jsnum
  input_absent_days :: jsnum
  deduction_cash_advance :: jsnum
  deduction_late :: jsnum
  deduction_abs :: jsnum
  misconductDeduction :: jsnum
  deduction_unlawful :: jsnum
  deduction_tours :: jsnum
  deduction_others :: jsnum
  manager_convenience :: jsnum
  total_books :: jsnum
  total_collection :: jsnum
  total_deductions :: jsnum
  commission :: jsnum
  bonus :: jsnum
  final_salary :: jsnum

record ManagerContext =
  isManager :: bool
  branchTotalCollection :: jsnum

definition BONUS_TARGET_BOOKS :: jsnum where
  "BONUS_TARGET_BOOKS = Num 50"

definition TARGET_BONUS_AMOUNT :: jsnum where
  "TARGET_BONUS_AMOUNT = Num 500"

text \<open>
  The module \<^verbatim>\<open>services/bonusRates\<close> is imported by \<^verbatim>\<open>logic.ts\<close> but is not part of the
  sources at hand, so the table is a parameter: a finite map from the term to the flat
  amount. A term missing from the table reads as \<^verbatim>\<open>undefined\<close>, which the multiplication
  turns into \<open>NaN\<close>.
\<close>

type_synonym BonusRates = "rat \<rightharpoonup> jsnum"

definition rate_at :: "BonusRates \<Rightarrow> rat \<Rightarrow> jsnum" where
  "rate_at bonusRates k = (case bonusRates k of None \<Rightarrow> NaN | Some v \<Rightarrow> v)"

text \<open>\<^verbatim>\<open>commissionTypeOverride || entry.commission_type || 'A'\<close>\<close>

definition effectiveCommissionType :: "string option \<Rightarrow> SalaryEntry \<Rightarrow> string" where
  "effectiveCommissionType commissionTypeOverride entry =
     (case or_str (or_str commissionTypeOverride (commission_type entry)) (Some ''A'') of
        Some t \<Rightarrow> t | None \<Rightarrow> ''A'')"

text \<open>
  \<^verbatim>\<open>ratesMap[commissionType] || { own: 0, office: 0 }\<close>, as the pair of its two rates. The
  table is a finite map: the properties an object inherits from its prototype are not
  represented.
\<close>

definition rateStruct :: "(string \<rightharpoonup> CommissionStructure) \<Rightarrow> string \<Rightarrow> jsnum \<times> jsnum" where
  "rateStruct ratesMap commissionType =
     (case ratesMap commissionType of
        None \<Rightarrow> (Num 0, Num 0)
      | Some s \<Rightarrow> (own s, office s))"

definition collectionCommission :: "SalaryEntry \<Rightarrow> jsnum \<times> jsnum \<Rightarrow> jsnum" where
  "collectionCommission entry rs =
     (let ownRate = fst rs / Num 100;
          officeRate = snd rs / Num 100
      in or0 (own_somity_collection entry) * ownRate
         + or0 (office_somity_collection entry) * officeRate)"

definition bookCommission :: "BonusRates \<Rightarrow> SalaryEntry \<Rightarrow> jsnum" where
  "bookCommission bonusRates entry =
     book_1_5 entry * rate_at bonusRates (3 / 2)
     + book_3 entry * rate_at bonusRates 3
     + book_5 entry * rate_at bonusRates 5
     + book_8 entry * rate_at bonusRates 8
     + book_10 entry * rate_at bonusRates 10
     + book_12 entry * rate_at bonusRates 12"

text \<open>Step 5 of \<^verbatim>\<open>recalculateEntry\<close>: the manager incentive.\<close>

definition managerConvenience :: "SalaryEntry \<Rightarrow> ManagerContext option \<Rightarrow> jsnum" where
  "managerConvenience entry managerContext =
     (case managerContext of
        None \<Rightarrow> or0 (manager_convenience entry)
      | Some ctx \<Rightarrow>
          if isManager ctx then
            (let managerOwnCollection =
                   or0 (own_somity_collection entry)
                   + or0 (office_somity_collection entry)
                   + or0 (total_loan_collection entry)
                   + or0 (center_collection entry);
                 diff = branchTotalCollection ctx - managerOwnCollection
             in Math_max (Num 0) (diff * Num (2 / 100)))
          else Num 0)"

definition recalculateEntry ::
  "BonusRates \<Rightarrow> SalaryEntry \<Rightarrow> jsnum \<Rightarrow> (string \<rightharpoonup> CommissionStructure) \<Rightarrow>
   string option \<Rightarrow> ManagerContext option \<Rightarrow> SalaryEntry" where
  "recalculateEntry bonusRates entry contractualBaseSalary ratesMap commissionTypeOverride
     managerContext =
     (let commissionType = effectiveCommissionType commissionTypeOverride entry;
          total_books' =
            book_1_5 entry + book_3 entry + book_5 entry + book_8 entry
            + book_10 entry + book_12 entry + book_no_bonus entry;
          total_collection' =
            or0 (own_somity_collection entry) + or0 (office_somity_collection entry)
            + or0 (center_collection entry);
          commission' =
            collectionCommission entry (rateStruct ratesMap commissionType)
            + bookCommission bonusRates entry;
          bonus' = (if BONUS_TARGET_BOOKS \<le> total_books' then TARGET_BONUS_AMOUNT else Num 0);
          dailyRate = contractualBaseSalary / Num 26;
          hourlyRate = dailyRate / Num 8;
          deduction_late' = or0 (input_late_hours entry) * hourlyRate;
          deduction_abs' = or0 (input_absent_days entry) * dailyRate;
          total_deductions' =
            deduction_cash_advance entry + deduction_late' + deduction_abs'
            + or0 (misconductDeduction entry) + deduction_unlawful entry
            + deduction_tours entry + deduction_others entry;
          manager_convenience' = managerConvenience entry managerContext;
          final_salary' =
            or0 (basic_salary entry) + commission' + bonus' + manager_convenience'
            - total_deductions'
      in entry
           \<lparr> commission_type := Some commissionType,
             deduction_late := deduction_late',
             deduction_abs := deduction_abs',
             total_books := total_books',
             total_collection := total_collection',
             total_deductions := total_deductions',
             manager_convenience := manager_convenience',
             commission := commission',
             bonus := bonus',
             final_salary := final_salary' \<rparr>)"


text \<open>
  \<^verbatim>\<open>createEmptyEntry\<close>. The identifier comes from a random generator in the source; here it
  is an argument. The commission type is an optional argument with the default \<^verbatim>\<open>'A'\<close>.
\<close>

definition createEmptyEntry ::
  "string \<Rightarrow> string \<Rightarrow> string \<Rightarrow> jsnum \<Rightarrow> string option \<Rightarrow> SalaryEntry" where
  "createEmptyEntry generatedId sheetId employeeId baseSalary commissionType =
     \<lparr> rowIndex = None, status = None,
       entry_id = generatedId,
       salary_sheet_id = sheetId,
       employee_id = employeeId,
       basic_salary = baseSalary,
       commission_type = Some (case commissionType of None \<Rightarrow> ''A'' | Some t \<Rightarrow> t),
       own_somity_count = Num 0,
       own_somity_collection = Num 0,
       office_somity_count = Num 0,
       office_somity_collection = Num 0,
       center_count = Num 0,
       center_collection = Num 0,
       total_loan_collection = Num 0,
       book_1_5 = Num 0,
       book_3 = Num 0,
       book_5 = Num 0,
       book_8 = Num 0,
       book_10 = Num 0,
       book_12 = Num 0,
       book_no_bonus = Num 0,
       input_late_hours = Num 0,
       input_absent_days = Num 0,
       deduction_cash_advance = Num 0,
       deduction_late = Num 0,
       deduction_abs = Num 0,
       misconductDeduction = Num 0,
       deduction_unlawful = Num 0,
       deduction_tours = Num 0,
       deduction_others = Num 0,
       manager_convenience = Num 0,
       total_books = Num 0,
       total_collection = Num 0,
       total_deductions = Num 0,
       commission = Num 0,
       bonus = Num 0,
       final_salary = baseSalary \<rparr>"

definition DEFAULT_COMMISSION_RATES :: "string \<rightharpoonup> CommissionStructure" where
  "DEFAULT_COMMISSION_RATES = map_of
     [(''A'', \<lparr> rowIndex = None, status = None, typeCode = ''A'', own = Num 8, office = Num 4 \<rparr>),
      (''B'', \<lparr> rowIndex = None, status = None, typeCode = ''B'', own = Num 10, office = Num 6 \<rparr>),
      (''C'', \<lparr> rowIndex = None, status = None, typeCode = ''C'', own = Num 8, office = Num 6 \<rparr>)]"


section \<open>Strings\<close>

text \<open>
  A string is a list of 8-bit characters. \<^verbatim>\<open>toLowerCase\<close> maps the upper-case letters of
  ASCII and leaves every other character alone; \<^verbatim>\<open>trim\<close> strips the white space of ASCII
  (tab, line feed, vertical tab, form feed, carriage return, space). The case mappings and
  the white space of Unicode beyond ASCII are not represented.
\<close>

definition toLowerChar :: "char \<Rightarrow> char" where
  "toLowerChar c =
     (case map_of (zip ''ABCDEFGHIJKLMNOPQRSTUVWXYZ'' ''abcdefghijklmnopqrstuvwxyz'') c of
        Some l \<Rightarrow> l
      | None \<Rightarrow> c)"

definition toLowerCase :: "string \<Rightarrow> string" where
  "toLowerCase s = map toLowerChar s"

definition isWhiteSpace :: "char \<Rightarrow> bool" where
  "isWhiteSpace c \<longleftrightarrow>
     c \<in> set [CHR 0x09, CHR 0x0A, CHR 0x0B, CHR 0x0C, CHR 0x0D, CHR '' '']"

definition trim :: "string \<Rightarrow> string" where
  "trim s = rev (dropWhile isWhiteSpace (rev (dropWhile isWhiteSpace s)))"

text \<open>\<^verbatim>\<open>s.startsWith(p)\<close>\<close>

definition startsWith :: "string \<Rightarrow> string \<Rightarrow> bool" where
  "startsWith s p \<longleftrightarrow> take (length p) s = p"

text \<open>\<^verbatim>\<open>s.split(sep)\<close> for a separator of one character: never the empty list.\<close>

fun split_js :: "char \<Rightarrow> string \<Rightarrow> string list" where
  "split_js sep [] = [[]]"
| "split_js sep (c # cs) =
     (if c = sep then [] # split_js sep cs
      else (case split_js sep cs of
              [] \<Rightarrow> [[c]]
            | p # ps \<Rightarrow> (c # p) # ps))"

definition isDigit :: "char \<Rightarrow> bool" where
  "isDigit c \<longleftrightarrow> c \<in> set ''0123456789''"

definition digitValue :: "char \<Rightarrow> nat" where
  "digitValue c =
     (case map_of (zip ''0123456789'' [0, 1, 2, 3, 4, 5, 6, 7, 8, 9]) c of
        Some d \<Rightarrow> d
      | None \<Rightarrow> 0)"

definition decimalValue :: "string \<Rightarrow> nat" where
  "decimalValue s = foldl (\<lambda>n c. 10 * n + digitValue c) 0 s"

text \<open>
  \<^verbatim>\<open>Number(s)\<close> on a string, for the strings a date is made of: white space is trimmed, the
  empty string is \<open>0\<close>, a string of decimal digits is its value, and a string holding any
  other character is \<open>NaN\<close>. JavaScript also reads signs, fractions, exponents, radix
  prefixes and \<^verbatim>\<open>Infinity\<close>; those forms are outside this fragment (the model answers \<open>NaN\<close>
  for them), and the theorems on the time window are stated for date parts made of digits.
\<close>

definition Number_str :: "string \<Rightarrow> jsnum" where
  "Number_str s =
     (let t = trim s
      in if t = [] then Num 0
         else if list_all isDigit t then Num (of_nat (decimalValue t))
         else NaN)"

text \<open>
  Reading position \<open>i\<close> of a destructured array of numbers: a missing position is
  \<^verbatim>\<open>undefined\<close>, which arithmetic turns into \<open>NaN\<close>.
\<close>

definition element :: "jsnum list \<Rightarrow> nat \<Rightarrow> jsnum" where
  "element xs i = (if i < length xs then xs ! i else NaN)"

text \<open>
  \<^verbatim>\<open>String(n)\<close> for an integer \<open>n\<close>, as a template literal renders a center code: decimal
  digits, with a minus sign for a negative number (JavaScript turns to the exponent
  notation from \<open>10\<^sup>2\<^sup>1\<close> on, far above any center code).
\<close>

definition digitChar :: "nat \<Rightarrow> char" where
  "digitChar d = ''0123456789'' ! d"

fun digitsOfNat :: "nat \<Rightarrow> string" where
  "digitsOfNat n =
     (if n < 10 then [digitChar n] else digitsOfNat (n div 10) @ [digitChar (n mod 10)])"

declare digitsOfNat.simps [simp del]

definition String_int :: "int \<Rightarrow> string" where
  "String_int n = (if n < 0 then CHR ''-'' # digitsOfNat (nat (- n)) else digitsOfNat (nat n))"


section \<open>Account eligibility (services/accountService.ts)\<close>

record AccountOpening = SheetRow +
  account_id :: jsnum
  account_code :: string
  account_term :: jsnum
  collection_amount :: jsnum
  opened_by_employee_id :: string
  branch_id :: string
  opening_date :: string
  is_counted :: bool
  counted_month :: "string option"
  salary_sheet_id :: "string option"

text \<open>The result \<^verbatim>\<open>{ ok, error?, account? }\<close>: either the account or the error text.\<close>

datatype ValidationResult = Ok AccountOpening | Rejected string

text \<open>
  \<^verbatim>\<open>(sheetY - openY) * 12 + (sheetM - openM)\<close>, the two dates split at \<^verbatim>\<open>-\<close> and their
  parts converted with \<^verbatim>\<open>Number\<close>.
\<close>

definition monthDiff :: "string \<Rightarrow> string \<Rightarrow> jsnum" where
  "monthDiff openingDate sheetMonth =
     (let openParts = map Number_str (split_js CHR ''-'' openingDate);
          sheetParts = map Number_str (split_js CHR ''-'' sheetMonth);
          openY = element openParts 0;
          openM = element openParts 1;
          sheetY = element sheetParts 0;
          sheetM = element sheetParts 1
      in (sheetY - openY) * Num 12 + (sheetM - openM))"

definition validateAccount ::
  "string \<Rightarrow> string \<Rightarrow> string \<Rightarrow> string \<Rightarrow> AccountOpening list \<Rightarrow> ValidationResult" where
  "validateAccount code employeeId branchId sheetMonth allAccounts =
     (let normalizedCode = toLowerCase (trim code)
      in case find (\<lambda>a. toLowerCase (account_code a) = normalizedCode) allAccounts of
           None \<Rightarrow> Rejected ''Account not found''
         | Some ac \<Rightarrow>
             if opened_by_employee_id ac \<noteq> employeeId then
               Rejected ''Belongs to another employee''
             else if branch_id ac \<noteq> branchId then
               Rejected ''Branch mismatch''
             else if is_counted ac then
               (if counted_month ac = Some sheetMonth then
                  Rejected ''Already scanned in this sheet''
                else
                  Rejected (''Used in '' @
                    (case or_str (counted_month ac) (Some ''past'') of
                       Some m \<Rightarrow> m
                     | None \<Rightarrow> ''past'')))
             else if collection_amount ac < Num 600 then
               Rejected ''Not Eligible: Collection < 600''
             else if monthDiff (opening_date ac) sheetMonth < Num 0 then
               Rejected ''Error: Account opened after sheet month''
             else if Num 2 < monthDiff (opening_date ac) sheetMonth then
               Rejected ''Expired: 2-month bonus window passed''
             else Ok ac)"


section \<open>Center ownership and collection aggregation\<close>

datatype CenterType = OWN | OFFICE

text \<open>
  A center code is an integer: the entry form reads it with \<^verbatim>\<open>parseInt\<close> and refuses a
  code that is not positive.
\<close>

record Center = SheetRow +
  center_id :: string
  centerCode :: int
  centerName :: string
  branchId :: string
  assignedEmployeeId :: string
  type :: "CenterType option"

record CenterCollectionRecord = SheetRow +
  record_id :: string
  branchId :: string
  employeeId :: string
  centerCode :: int
  amount :: jsnum
  loanAmount :: "jsnum option"
  type :: CenterType
  createdAt :: string

text \<open>\<^verbatim>\<open>r.loanAmount || 0\<close> on the optional loan amount.\<close>

fun or0_opt :: "jsnum option \<Rightarrow> jsnum" where
  "or0_opt None = Num 0"
| "or0_opt (Some x) = or0 x"

text \<open>
  The type \<^verbatim>\<open>getCollections\<close> gives a record when the collections sheet is read: the parity
  of its code, \<^verbatim>\<open>centerCode % 2 !== 0 ? 'OWN' : 'OFFICE'\<close>.
\<close>

definition parityType :: "int \<Rightarrow> CenterType" where
  "parityType code = (if code mod 2 \<noteq> 0 then OWN else OFFICE)"

text \<open>\<^verbatim>\<open>Number(row[i])\<close>: a cell the row does not have is \<^verbatim>\<open>undefined\<close>, and its number is \<open>NaN\<close>.\<close>

definition Number_cell :: "string list \<Rightarrow> nat \<Rightarrow> jsnum" where
  "Number_cell row i = (if i < length row then Number_str (row ! i) else NaN)"

text \<open>
  \<^verbatim>\<open>getCollections\<close> of the sheet service, which is the only source of the records of the
  application: the record of one row of the collections sheet, \<open>index\<close> counting from the
  row after the header. The type written in the sheet (cell 9) is read and not used. The
  result is \<open>None\<close> where the record type cannot hold the row: a row of fewer than seven
  cells leaves a string field \<^verbatim>\<open>undefined\<close>, and a code cell that \<open>Number_str\<close> does not read
  as a number gives a code that is not an integer. Within the fragment of \<open>Number_str\<close> the
  code is a natural number, so its integer part is the code itself.
\<close>

definition getCollectionsRow :: "nat \<Rightarrow> string list \<Rightarrow> CenterCollectionRecord option" where
  "getCollectionsRow index row =
     (if length row \<le> 6 then None
      else case Number_str (row ! 4) of
             NaN \<Rightarrow> None
           | Num q \<Rightarrow>
               (let amountVal = Number_cell row 7;
                    loanVal = Number_cell row 8;
                    centerCode' = \<lfloor>q\<rfloor>;
                    centerType = (if centerCode' mod 2 \<noteq> 0 then OWN else OFFICE)
                in Some \<lparr> rowIndex = Some (Num (of_nat (index + 2))),
                          status = Some ''ACTIVE'',
                          record_id = row ! 0,
                          branchId = row ! 3,
                          employeeId = row ! 6,
                          centerCode = centerCode',
                          amount = amountVal,
                          loanAmount = Some loanVal,
                          type = centerType,
                          createdAt = row ! 1 \<rparr>))"

text \<open>\<^verbatim>\<open>rows.slice(1).map((row, index) => ...)\<close>\<close>

definition getCollections :: "string list list \<Rightarrow> CenterCollectionRecord option list" where
  "getCollections rows =
     map (\<lambda>(index, row). getCollectionsRow index row) (enumerate 0 (drop 1 rows))"

text \<open>
  \<^verbatim>\<open>getCenterType\<close> of the center calculation screen. The master list \<^verbatim>\<open>centers\<close> and the
  state of the entry form (\<^verbatim>\<open>isNewCenter\<close>, \<^verbatim>\<open>newCenterType\<close>) are variables the closure
  reads; here they are arguments. The test \<^verbatim>\<open>code % 2 !== 0\<close> and \<open>code mod 2 \<noteq> 0\<close> agree on
  every integer, although the two remainders differ in sign on a negative odd code.
\<close>

definition getCenterType ::
  "Center list \<Rightarrow> bool \<Rightarrow> CenterType \<Rightarrow> int \<Rightarrow> string \<Rightarrow> string \<Rightarrow> CenterType" where
  "getCenterType centers isNewCenter newCenterType code branchId' collectingEmpId =
     (case find (\<lambda>c. Center.centerCode c = code \<and> Center.branchId c = branchId') centers of
        Some configuredCenter \<Rightarrow>
          if Center.type configuredCenter = Some OFFICE then OFFICE
          else if assignedEmployeeId configuredCenter = collectingEmpId then OWN
          else OFFICE
      | None \<Rightarrow>
          if isNewCenter then newCenterType
          else if code mod 2 \<noteq> 0 then OWN else OFFICE)"

text \<open>
  The salary grid (\<^verbatim>\<open>gridRows\<close> of the application): the center map keyed by
  \<^verbatim>\<open>`${branchId}-${centerCode}`\<close>, filled in the order of the master list, so that a later
  center replaces an earlier one under the same key.
\<close>

definition centerKey :: "string \<Rightarrow> int \<Rightarrow> string" where
  "centerKey b code = b @ ''-'' @ String_int code"

definition setCenter :: "(string \<rightharpoonup> Center) \<Rightarrow> Center \<Rightarrow> (string \<rightharpoonup> Center)" where
  "setCenter m c = m(centerKey (Center.branchId c) (Center.centerCode c) \<mapsto> c)"

definition centerMap :: "Center list \<Rightarrow> (string \<rightharpoonup> Center)" where
  "centerMap centers = foldl setCenter Map.empty centers"

text \<open>The ownership decision \<^verbatim>\<open>isOwn\<close> taken for one record of the employee of an entry.\<close>

definition isOwn :: "Center list \<Rightarrow> string \<Rightarrow> CenterCollectionRecord \<Rightarrow> bool" where
  "isOwn centers entryEmployeeId r =
     (case centerMap centers (centerKey (branchId r) (centerCode r)) of
        Some center \<Rightarrow>
          if Center.type center = Some OFFICE then False
          else assignedEmployeeId center = entryEmployeeId
      | None \<Rightarrow> type r = OWN)"

text \<open>
  The records of the employee (the group \<^verbatim>\<open>recordsByEmp[entry.employee_id]\<close>, in the order
  of the sheet) that were created in the selected month.
\<close>

definition currentMonthRecords ::
  "CenterCollectionRecord list \<Rightarrow> string \<Rightarrow> string \<Rightarrow> CenterCollectionRecord list" where
  "currentMonthRecords centerRecords selectedMonth entryEmployeeId =
     filter (\<lambda>r. startsWith (createdAt r) selectedMonth)
       (filter (\<lambda>r. employeeId r = entryEmployeeId) centerRecords)"

text \<open>
  The loop that pushes every record of the month on \<^verbatim>\<open>ownRecords\<close> or on \<^verbatim>\<open>offRecords\<close>;
  the state is the pair of the two arrays.
\<close>

fun pushRecords ::
  "(CenterCollectionRecord \<Rightarrow> bool) \<Rightarrow> CenterCollectionRecord list \<Rightarrow>
   CenterCollectionRecord list \<times> CenterCollectionRecord list \<Rightarrow>
   CenterCollectionRecord list \<times> CenterCollectionRecord list" where
  "pushRecords decide [] (ownRecords, offRecords) = (ownRecords, offRecords)"
| "pushRecords decide (r # rs) (ownRecords, offRecords) =
     (if decide r then pushRecords decide rs (ownRecords @ [r], offRecords)
      else pushRecords decide rs (ownRecords, offRecords @ [r]))"

text \<open>\<^verbatim>\<open>new Set(xs).size\<close>: the number of distinct members.\<close>

definition setSize :: "int list \<Rightarrow> nat" where
  "setSize xs = length (remdups xs)"

text \<open>
  The five aggregates of one entry, written over the entry as the grid does before it
  recalculates it.
\<close>

definition aggregateCollections ::
  "Center list \<Rightarrow> CenterCollectionRecord list \<Rightarrow> string \<Rightarrow> SalaryEntry \<Rightarrow> SalaryEntry" where
  "aggregateCollections centers centerRecords selectedMonth entry =
     (let records = currentMonthRecords centerRecords selectedMonth (employee_id entry);
          (ownRecords, offRecords) =
            pushRecords (isOwn centers (employee_id entry)) records ([], []);
          own_somity_collection' = foldl (\<lambda>sum r. sum + amount r) (Num 0) ownRecords;
          own_somity_count' = setSize (map centerCode ownRecords);
          office_somity_collection' = foldl (\<lambda>sum r. sum + amount r) (Num 0) offRecords;
          office_somity_count' = setSize (map centerCode offRecords);
          total_loan_collection' =
            foldl (\<lambda>sum r. sum + or0_opt (loanAmount r)) (Num 0) records
      in entry
           \<lparr> own_somity_collection := own_somity_collection',
             own_somity_count := Num (of_nat own_somity_count'),
             office_somity_collection := office_somity_collection',
             office_somity_count := Num (of_nat office_somity_count'),
             total_loan_collection := total_loan_collection' \<rparr>)"


section \<open>Example data and auxiliary predicates\<close>

text \<open>
  A complete bonus table, an entry and two manager contexts, used to run the definitions
  on concrete inputs. The amounts of the table are examples: the table of the application
  is not among the sources.
\<close>

definition exampleBonusRates :: BonusRates where
  "exampleBonusRates =
     map_of [(3 / 2, Num 20), (3, Num 30), (5, Num 50), (8, Num 80), (10, Num 100), (12, Num 120)]"

definition exampleEntry :: SalaryEntry where
  "exampleEntry =
     (createEmptyEntry ''e1'' ''s1'' ''emp1'' (Num 10400) (Some ''B''))
       \<lparr> own_somity_collection := Num 1000,
         office_somity_collection := Num 500,
         book_5 := Num 2 \<rparr>"

definition exampleManager :: ManagerContext where
  "exampleManager = \<lparr> isManager = True, branchTotalCollection = Num 51500 \<rparr>"

definition exampleNonManager :: ManagerContext where
  "exampleNonManager = \<lparr> isManager = False, branchTotalCollection = Num 51500 \<rparr>"

definition exampleLateEntry :: SalaryEntry where
  "exampleLateEntry =
     exampleEntry \<lparr> basic_salary := Num 9000, input_late_hours := Num 4,
                    input_absent_days := Num 2 \<rparr>"

definition exampleMalformedEntry :: SalaryEntry where
  "exampleMalformedEntry =
     exampleEntry \<lparr> own_somity_collection := NaN, input_late_hours := NaN,
                    misconductDeduction := NaN, basic_salary := NaN \<rparr>"

text \<open>The entry with every guarded field read through \<^verbatim>\<open>|| 0\<close>.\<close>

definition coerceGuarded :: "SalaryEntry \<Rightarrow> SalaryEntry" where
  "coerceGuarded entry =
     entry \<lparr> basic_salary := or0 (basic_salary entry),
             own_somity_collection := or0 (own_somity_collection entry),
             office_somity_collection := or0 (office_somity_collection entry),
             center_collection := or0 (center_collection entry),
             total_loan_collection := or0 (total_loan_collection entry),
             input_late_hours := or0 (input_late_hours entry),
             input_absent_days := or0 (input_absent_days entry),
             misconductDeduction := or0 (misconductDeduction entry),
             manager_convenience := or0 (manager_convenience entry) \<rparr>"

text \<open>The nine values \<^verbatim>\<open>recalculateEntry\<close> derives, in the order in which it computes them.\<close>

definition derivedValues ::
  "SalaryEntry \<Rightarrow> jsnum \<times> jsnum \<times> jsnum \<times> jsnum \<times> jsnum \<times> jsnum \<times> jsnum \<times> jsnum \<times> jsnum" where
  "derivedValues r =
     (total_books r, total_collection r, commission r, bonus r, deduction_late r,
      deduction_abs r, total_deductions r, manager_convenience r, final_salary r)"

text \<open>
  The data model of accounts: an opening date is \<^verbatim>\<open>YYYY-MM-DD\<close> and a sheet month is
  \<^verbatim>\<open>YYYY-MM\<close>. The validator reads the first two parts of either, so a date is well formed
  when it begins with two non-empty strings of digits separated by \<^verbatim>\<open>-\<close>.
\<close>

definition digits :: "string \<Rightarrow> bool" where
  "digits t \<longleftrightarrow> t \<noteq> [] \<and> list_all isDigit t"

definition wellFormedDate :: "string \<Rightarrow> bool" where
  "wellFormedDate s =
     (case split_js CHR ''-'' s of
        y # m # rest \<Rightarrow> digits y \<and> digits m
      | _ \<Rightarrow> False)"

text \<open>The account the validator looks at: the first whose code matches, ignoring case.\<close>

definition matchedAccount :: "string \<Rightarrow> AccountOpening list \<Rightarrow> AccountOpening option" where
  "matchedAccount code allAccounts =
     find (\<lambda>a. toLowerCase (account_code a) = toLowerCase (trim code)) allAccounts"

text \<open>The text after \<^verbatim>\<open>Used in\<close>: the month the account was counted in, \<^verbatim>\<open>past\<close> if none.\<close>

definition usedIn :: "AccountOpening \<Rightarrow> string" where
  "usedIn ac =
     (case counted_month ac of
        None \<Rightarrow> ''past''
      | Some m \<Rightarrow> if m = [] then ''past'' else m)"

text \<open>An account as in the scenario of the specification, and the same account once counted.\<close>

definition exampleAccount :: AccountOpening where
  "exampleAccount =
     \<lparr> rowIndex = None, status = Some ''ACTIVE'',
       account_id = Num 1, account_code = ''AC-1001'', account_term = Num 5,
       collection_amount = Num 600, opened_by_employee_id = ''emp1'', branch_id = ''b1'',
       opening_date = ''2024-01-15'', is_counted = False, counted_month = None,
       salary_sheet_id = None \<rparr>"

definition countedAccount :: AccountOpening where
  "countedAccount = exampleAccount \<lparr> is_counted := True, counted_month := Some ''2024-02'' \<rparr>"

text \<open>
  The data model of centers: a center is identified by its branch and its code, and codes
  are not negative.
\<close>

definition uniqueCenters :: "Center list \<Rightarrow> bool" where
  "uniqueCenters centers \<longleftrightarrow>
     (\<forall>c \<in> set centers. \<forall>c' \<in> set centers.
        Center.branchId c = Center.branchId c' \<and> Center.centerCode c = Center.centerCode c'
        \<longrightarrow> c = c')"

definition nonNegativeCodes :: "Center list \<Rightarrow> bool" where
  "nonNegativeCodes centers \<longleftrightarrow> (\<forall>c \<in> set centers. 0 \<le> Center.centerCode c)"

text \<open>Two centers of one branch and collection records of March and February 2024.\<close>

definition officeCenter :: Center where
  "officeCenter =
     \<lparr> rowIndex = None, status = Some ''ACTIVE'',
       center_id = ''c1'', centerCode = 101, centerName = ''North Bazar'',
       branchId = ''b1'', assignedEmployeeId = ''emp1'', type = Some OFFICE \<rparr>"

definition ownCenter :: Center where
  "ownCenter =
     \<lparr> rowIndex = None, status = Some ''ACTIVE'',
       center_id = ''c2'', centerCode = 103, centerName = ''South Bazar'',
       branchId = ''b1'', assignedEmployeeId = ''emp1'', type = None \<rparr>"

definition exampleRecord :: CenterCollectionRecord where
  "exampleRecord =
     \<lparr> rowIndex = None, status = Some ''ACTIVE'',
       record_id = ''r1'', branchId = ''b1'', employeeId = ''emp1'', centerCode = 101,
       amount = Num 500, loanAmount = Some (Num 200), type = OWN,
       createdAt = ''2024-03-05T10:00:00.000Z'' \<rparr>"

definition ownRecord1 :: CenterCollectionRecord where
  "ownRecord1 = exampleRecord \<lparr> centerCode := 103, type := OWN \<rparr>"

definition ownRecord2 :: CenterCollectionRecord where
  "ownRecord2 =
     exampleRecord \<lparr> record_id := ''r2'', centerCode := 103, type := OWN, amount := Num 300,
                     loanAmount := None \<rparr>"

definition officeRecord :: CenterCollectionRecord where
  "officeRecord =
     exampleRecord \<lparr> record_id := ''r3'', amount := Num 400, loanAmount := Some (Num 50) \<rparr>"

definition exampleRecords :: "CenterCollectionRecord list" where
  "exampleRecords =
     [ownRecord1, ownRecord2, officeRecord,
      exampleRecord \<lparr> record_id := ''r4'', employeeId := ''emp2'' \<rparr>,
      exampleRecord \<lparr> record_id := ''r5'', createdAt := ''2024-02-27T09:30:00.000Z'' \<rparr>]"

text \<open>A collections sheet of a header and one row, for the center 105 that no master has.\<close>

definition exampleRows :: "string list list" where
  "exampleRows =
     [[''ID'', ''Date'', ''Branch'', ''BranchID'', ''Center'', ''CenterName'', ''EmployeeID'',
       ''Amount'', ''Loan'', ''Type''],
      [''r9'', ''2024-03-07T08:00:00.000Z'', ''Main'', ''b1'', ''105'', ''East Gate'', ''emp1'',
       ''700'', ''0'', ''OFFICE'']]"

definition loadedRecord :: CenterCollectionRecord where
  "loadedRecord =
     \<lparr> rowIndex = Some (Num 2), status = Some ''ACTIVE'',
       record_id = ''r9'', branchId = ''b1'', employeeId = ''emp1'', centerCode = 105,
       amount = Num 700, loanAmount = Some (Num 0), type = OWN,
       createdAt = ''2024-03-07T08:00:00.000Z'' \<rparr>"

lemmas string_defs =
  toLowerCase_def toLowerChar_def trim_def isWhiteSpace_def isDigit_def digits_def
  decimalValue_def digitValue_def Number_str_def element_def

lemmas record_defs = ownRecord1_def ownRecord2_def officeRecord_def exampleRecord_def


lemmas example_defs =
  exampleBonusRates_def exampleEntry_def createEmptyEntry_def DEFAULT_COMMISSION_RATES_def

lemmas recalc_defs =
  recalculateEntry_def Let_def effectiveCommissionType_def rateStruct_def
  collectionCommission_def bookCommission_def rate_at_def managerConvenience_def
  BONUS_TARGET_BOOKS_def TARGET_BONUS_AMOUNT_def


section \<open>Properties of the entry calculator\<close>

lemma or0_number: "\<not> isNaN x \<Longrightarrow> or0 x = x"
  by (cases x) simp_all

lemma or0_idem: "or0 (or0 x) = or0 x"
  by (cases x) simp_all

text \<open>
  Claim C1. The entry returned by \<^verbatim>\<open>recalculateEntry\<close> satisfies both identities of the
  derived totals: \<open>total_books\<close> is the sum of the six term counters and the no-bonus
  counter, and \<open>total_collection\<close> is the sum of the own, office and center collections.
  The three collections are read through \<^verbatim>\<open>|| 0\<close>, which changes nothing on a number: the
  second identity is stated as the code computes it, and in the words of the claim for
  collections that are numbers.
\<close>

theorem recalculateEntry_derived_totals:
  assumes "r = recalculateEntry bonusRates entry contractualBaseSalary ratesMap
                 commissionTypeOverride managerContext"
  shows "total_books r =
           book_1_5 r + book_3 r + book_5 r + book_8 r + book_10 r + book_12 r + book_no_bonus r
         \<and> total_collection r =
             or0 (own_somity_collection r) + or0 (office_somity_collection r)
             + or0 (center_collection r)
         \<and> (\<not> isNaN (own_somity_collection r) \<and> \<not> isNaN (office_somity_collection r)
              \<and> \<not> isNaN (center_collection r) \<longrightarrow>
            total_collection r =
              own_somity_collection r + office_somity_collection r + center_collection r)"
  unfolding assms by (simp add: recalculateEntry_def Let_def or0_number)

theorem recalculateEntry_derived_totals_witness:
  "\<not> isNaN (own_somity_collection exampleEntry)
   \<and> \<not> isNaN (office_somity_collection exampleEntry)
   \<and> \<not> isNaN (center_collection exampleEntry)
   \<and> total_books (recalculateEntry exampleBonusRates exampleEntry (Num 10400)
         DEFAULT_COMMISSION_RATES None None) = Num 2
   \<and> total_collection (recalculateEntry exampleBonusRates exampleEntry (Num 10400)
         DEFAULT_COMMISSION_RATES None None) = Num 1500"
  using recalculateEntry_derived_totals
    [OF refl, of exampleBonusRates exampleEntry "Num 10400" DEFAULT_COMMISSION_RATES None None]
  by (simp add: recalculateEntry_def Let_def example_defs)

text \<open>
  Claim C3. With a manager context present, the incentive of a manager is
  \<open>max(0, (branchTotalCollection - (own + office + loan + center)) * 0.02)\<close>, the four
  collections being read through \<^verbatim>\<open>|| 0\<close>; the incentive of anyone else is \<open>0\<close>, whatever
  the entry stored before.
\<close>

theorem manager_convenience_with_context:
  assumes "r = recalculateEntry bonusRates entry contractualBaseSalary ratesMap
                 commissionTypeOverride (Some ctx)"
  shows "(isManager ctx \<longrightarrow>
            manager_convenience r =
              Math_max (Num 0)
                ((branchTotalCollection ctx
                  - (or0 (own_somity_collection entry) + or0 (office_somity_collection entry)
                     + or0 (total_loan_collection entry) + or0 (center_collection entry)))
                 * Num (2 / 100)))
         \<and> (isManager ctx \<and> \<not> isNaN (own_somity_collection entry)
              \<and> \<not> isNaN (office_somity_collection entry)
              \<and> \<not> isNaN (total_loan_collection entry)
              \<and> \<not> isNaN (center_collection entry) \<longrightarrow>
            manager_convenience r =
              Math_max (Num 0)
                ((branchTotalCollection ctx
                  - (own_somity_collection entry + office_somity_collection entry
                     + total_loan_collection entry + center_collection entry))
                 * Num (2 / 100)))
         \<and> (\<not> isManager ctx \<longrightarrow> manager_convenience r = Num 0)"
  unfolding assms
  by (simp add: recalculateEntry_def managerConvenience_def Let_def or0_number)

theorem manager_convenience_with_context_witness:
  "isManager exampleManager
   \<and> \<not> isNaN (own_somity_collection exampleEntry)
   \<and> \<not> isNaN (office_somity_collection exampleEntry)
   \<and> \<not> isNaN (total_loan_collection exampleEntry)
   \<and> \<not> isNaN (center_collection exampleEntry)
   \<and> manager_convenience (recalculateEntry exampleBonusRates exampleEntry (Num 10400)
         DEFAULT_COMMISSION_RATES None (Some exampleManager)) = Num 1000
   \<and> \<not> isManager exampleNonManager
   \<and> manager_convenience (recalculateEntry exampleBonusRates
         (exampleEntry \<lparr> manager_convenience := Num 300 \<rparr>) (Num 10400)
         DEFAULT_COMMISSION_RATES None (Some exampleNonManager)) = Num 0"
  using manager_convenience_with_context
    [OF refl, of exampleManager exampleBonusRates exampleEntry "Num 10400"
       DEFAULT_COMMISSION_RATES None]
    manager_convenience_with_context
    [OF refl, of exampleNonManager exampleBonusRates
       "exampleEntry \<lparr> manager_convenience := Num 300 \<rparr>" "Num 10400"
       DEFAULT_COMMISSION_RATES None]
  by (simp add: exampleManager_def exampleNonManager_def example_defs)

text \<open>
  Claim C4. The two time-based deductions are computed from the contractual salary passed
  as an argument, \<open>late = hours * (contractual / 26 / 8)\<close> and
  \<open>absent = days * (contractual / 26)\<close>, and do not change when the basic salary of the
  entry is edited; the final salary starts from the basic salary of the entry:
  \<open>final = basic + commission + bonus + manager_convenience - total_deductions\<close>.
\<close>

theorem deductions_use_contractual_base:
  assumes "r = recalculateEntry bonusRates entry contractualBaseSalary ratesMap
                 commissionTypeOverride managerContext"
    and "\<not> isNaN (input_late_hours entry)"
    and "\<not> isNaN (input_absent_days entry)"
    and "\<not> isNaN (basic_salary entry)"
  shows "deduction_late r = input_late_hours entry * (contractualBaseSalary / Num 26 / Num 8)
         \<and> deduction_abs r = input_absent_days entry * (contractualBaseSalary / Num 26)
         \<and> (\<forall>b. deduction_late (recalculateEntry bonusRates (entry \<lparr> basic_salary := b \<rparr>)
                    contractualBaseSalary ratesMap commissionTypeOverride managerContext)
                  = deduction_late r
                \<and> deduction_abs (recalculateEntry bonusRates (entry \<lparr> basic_salary := b \<rparr>)
                    contractualBaseSalary ratesMap commissionTypeOverride managerContext)
                  = deduction_abs r)
         \<and> final_salary r =
             basic_salary r + commission r + bonus r + manager_convenience r
             - total_deductions r"
  unfolding assms(1) using assms(2-4)
  by (simp add: recalculateEntry_def Let_def or0_number collectionCommission_def
      bookCommission_def managerConvenience_def)

theorem deductions_use_contractual_base_witness:
  "\<not> isNaN (input_late_hours exampleLateEntry)
   \<and> \<not> isNaN (input_absent_days exampleLateEntry)
   \<and> \<not> isNaN (basic_salary exampleLateEntry)
   \<and> deduction_late (recalculateEntry exampleBonusRates exampleLateEntry (Num 10400)
         DEFAULT_COMMISSION_RATES None None) = Num 200
   \<and> deduction_abs (recalculateEntry exampleBonusRates exampleLateEntry (Num 10400)
         DEFAULT_COMMISSION_RATES None None) = Num 800
   \<and> final_salary (recalculateEntry exampleBonusRates exampleLateEntry (Num 10400)
         DEFAULT_COMMISSION_RATES None None) = Num 8230"
  using deductions_use_contractual_base
    [OF refl, of exampleLateEntry exampleBonusRates "Num 10400" DEFAULT_COMMISSION_RATES
       None None]
  by (simp add: exampleLateEntry_def example_defs recalc_defs)

text \<open>
  Claim C5 says that every numeric field read by the calculator treats a malformed value
  as zero. The seven book counters and four of the deduction amounts are read unguarded: a
  \<open>NaN\<close> in any book counter reaches \<open>total_books\<close>, \<open>commission\<close> and \<open>final_salary\<close>, and a
  \<open>NaN\<close> in the cash advance, unlawful, tours or other deduction reaches
  \<open>total_deductions\<close> and \<open>final_salary\<close>.
\<close>

theorem unguarded_NaN_propagates:
  "isNaN (total_books (recalculateEntry exampleBonusRates (exampleEntry \<lparr> book_1_5 := NaN \<rparr>)
      (Num 10400) DEFAULT_COMMISSION_RATES None None))
   \<and> isNaN (total_books (recalculateEntry exampleBonusRates (exampleEntry \<lparr> book_3 := NaN \<rparr>)
      (Num 10400) DEFAULT_COMMISSION_RATES None None))
   \<and> isNaN (commission (recalculateEntry exampleBonusRates (exampleEntry \<lparr> book_3 := NaN \<rparr>)
      (Num 10400) DEFAULT_COMMISSION_RATES None None))
   \<and> isNaN (final_salary (recalculateEntry exampleBonusRates (exampleEntry \<lparr> book_3 := NaN \<rparr>)
      (Num 10400) DEFAULT_COMMISSION_RATES None None))
   \<and> isNaN (total_books (recalculateEntry exampleBonusRates (exampleEntry \<lparr> book_5 := NaN \<rparr>)
      (Num 10400) DEFAULT_COMMISSION_RATES None None))
   \<and> isNaN (total_books (recalculateEntry exampleBonusRates (exampleEntry \<lparr> book_8 := NaN \<rparr>)
      (Num 10400) DEFAULT_COMMISSION_RATES None None))
   \<and> isNaN (total_books (recalculateEntry exampleBonusRates (exampleEntry \<lparr> book_10 := NaN \<rparr>)
      (Num 10400) DEFAULT_COMMISSION_RATES None None))
   \<and> isNaN (total_books (recalculateEntry exampleBonusRates (exampleEntry \<lparr> book_12 := NaN \<rparr>)
      (Num 10400) DEFAULT_COMMISSION_RATES None None))
   \<and> isNaN (total_books (recalculateEntry exampleBonusRates
      (exampleEntry \<lparr> book_no_bonus := NaN \<rparr>) (Num 10400) DEFAULT_COMMISSION_RATES None None))
   \<and> isNaN (total_deductions (recalculateEntry exampleBonusRates
      (exampleEntry \<lparr> deduction_cash_advance := NaN \<rparr>) (Num 10400)
      DEFAULT_COMMISSION_RATES None None))
   \<and> isNaN (total_deductions (recalculateEntry exampleBonusRates
      (exampleEntry \<lparr> deduction_unlawful := NaN \<rparr>) (Num 10400)
      DEFAULT_COMMISSION_RATES None None))
   \<and> isNaN (total_deductions (recalculateEntry exampleBonusRates
      (exampleEntry \<lparr> deduction_tours := NaN \<rparr>) (Num 10400) DEFAULT_COMMISSION_RATES None None))
   \<and> isNaN (final_salary (recalculateEntry exampleBonusRates
      (exampleEntry \<lparr> deduction_tours := NaN \<rparr>) (Num 10400) DEFAULT_COMMISSION_RATES None None))
   \<and> isNaN (total_deductions (recalculateEntry exampleBonusRates
      (exampleEntry \<lparr> deduction_others := NaN \<rparr>) (Num 10400)
      DEFAULT_COMMISSION_RATES None None))"
  by (simp add: example_defs recalc_defs)

text \<open>
  Claim C5, as amended. \<^verbatim>\<open>recalculateEntry\<close> treats a \<open>NaN\<close> as zero in the nine fields it
  reads through \<^verbatim>\<open>|| 0\<close>: basic salary, own, office and center collection, total loan
  collection, late hours, absent days, misconduct deduction and manager convenience. Each
  of the nine derived values is the one computed from the entry with these fields coerced,
  and a \<open>NaN\<close> in any one of them gives the derived values that \<open>0\<close> gives in its place.
\<close>

theorem guarded_fields_read_as_zero:
  fixes bonusRates entry contractualBaseSalary ratesMap commissionTypeOverride managerContext
  defines "derived \<equiv> \<lambda>e. derivedValues (recalculateEntry bonusRates e contractualBaseSalary
                      ratesMap commissionTypeOverride managerContext)"
  shows "derived entry = derived (coerceGuarded entry)
     \<and> derived (entry \<lparr> basic_salary := NaN \<rparr>) = derived (entry \<lparr> basic_salary := Num 0 \<rparr>)
     \<and> derived (entry \<lparr> own_somity_collection := NaN \<rparr>)
         = derived (entry \<lparr> own_somity_collection := Num 0 \<rparr>)
     \<and> derived (entry \<lparr> office_somity_collection := NaN \<rparr>)
         = derived (entry \<lparr> office_somity_collection := Num 0 \<rparr>)
     \<and> derived (entry \<lparr> center_collection := NaN \<rparr>)
         = derived (entry \<lparr> center_collection := Num 0 \<rparr>)
     \<and> derived (entry \<lparr> total_loan_collection := NaN \<rparr>)
         = derived (entry \<lparr> total_loan_collection := Num 0 \<rparr>)
     \<and> derived (entry \<lparr> input_late_hours := NaN \<rparr>)
         = derived (entry \<lparr> input_late_hours := Num 0 \<rparr>)
     \<and> derived (entry \<lparr> input_absent_days := NaN \<rparr>)
         = derived (entry \<lparr> input_absent_days := Num 0 \<rparr>)
     \<and> derived (entry \<lparr> misconductDeduction := NaN \<rparr>)
         = derived (entry \<lparr> misconductDeduction := Num 0 \<rparr>)
     \<and> derived (entry \<lparr> manager_convenience := NaN \<rparr>)
         = derived (entry \<lparr> manager_convenience := Num 0 \<rparr>)"
proof -
  have coerced: "derived e = derived (coerceGuarded e)" for e
    unfolding derived_def
    by (simp add: derivedValues_def recalculateEntry_def Let_def coerceGuarded_def or0_idem
        effectiveCommissionType_def collectionCommission_def bookCommission_def
        managerConvenience_def split: option.split)
  have same: "derived e = derived e'" if "coerceGuarded e = coerceGuarded e'" for e e'
    using that coerced [of e] coerced [of e'] by simp
  have "derived (entry \<lparr> basic_salary := NaN \<rparr>) = derived (entry \<lparr> basic_salary := Num 0 \<rparr>)"
    by (rule same) (simp add: coerceGuarded_def)
  moreover have "derived (entry \<lparr> own_somity_collection := NaN \<rparr>)
         = derived (entry \<lparr> own_somity_collection := Num 0 \<rparr>)"
    by (rule same) (simp add: coerceGuarded_def)
  moreover have "derived (entry \<lparr> office_somity_collection := NaN \<rparr>)
         = derived (entry \<lparr> office_somity_collection := Num 0 \<rparr>)"
    by (rule same) (simp add: coerceGuarded_def)
  moreover have "derived (entry \<lparr> center_collection := NaN \<rparr>)
         = derived (entry \<lparr> center_collection := Num 0 \<rparr>)"
    by (rule same) (simp add: coerceGuarded_def)
  moreover have "derived (entry \<lparr> total_loan_collection := NaN \<rparr>)
         = derived (entry \<lparr> total_loan_collection := Num 0 \<rparr>)"
    by (rule same) (simp add: coerceGuarded_def)
  moreover have "derived (entry \<lparr> input_late_hours := NaN \<rparr>)
         = derived (entry \<lparr> input_late_hours := Num 0 \<rparr>)"
    by (rule same) (simp add: coerceGuarded_def)
  moreover have "derived (entry \<lparr> input_absent_days := NaN \<rparr>)
         = derived (entry \<lparr> input_absent_days := Num 0 \<rparr>)"
    by (rule same) (simp add: coerceGuarded_def)
  moreover have "derived (entry \<lparr> misconductDeduction := NaN \<rparr>)
         = derived (entry \<lparr> misconductDeduction := Num 0 \<rparr>)"
    by (rule same) (simp add: coerceGuarded_def)
  moreover have "derived (entry \<lparr> manager_convenience := NaN \<rparr>)
         = derived (entry \<lparr> manager_convenience := Num 0 \<rparr>)"
    by (rule same) (simp add: coerceGuarded_def)
  ultimately show ?thesis
    using coerced [of entry] by simp
qed

theorem guarded_fields_read_as_zero_witness:
  "derivedValues (recalculateEntry exampleBonusRates exampleMalformedEntry (Num 10400)
      DEFAULT_COMMISSION_RATES None None)
     = (Num 2, Num 500, Num 130, Num 0, Num 0, Num 0, Num 0, Num 0, Num 130)
   \<and> derivedValues (recalculateEntry exampleBonusRates (coerceGuarded exampleMalformedEntry)
      (Num 10400) DEFAULT_COMMISSION_RATES None None)
     = (Num 2, Num 500, Num 130, Num 0, Num 0, Num 0, Num 0, Num 0, Num 130)
   \<and> derivedValues (recalculateEntry exampleBonusRates
      (exampleEntry \<lparr> own_somity_collection := NaN \<rparr>) (Num 10400)
      DEFAULT_COMMISSION_RATES None None)
     = derivedValues (recalculateEntry exampleBonusRates
      (exampleEntry \<lparr> own_somity_collection := Num 0 \<rparr>) (Num 10400)
      DEFAULT_COMMISSION_RATES None None)"
  using guarded_fields_read_as_zero
    [of exampleBonusRates exampleMalformedEntry "Num 10400" DEFAULT_COMMISSION_RATES None None]
    guarded_fields_read_as_zero
    [of exampleBonusRates exampleEntry "Num 10400" DEFAULT_COMMISSION_RATES None None]
  by (simp add: exampleMalformedEntry_def example_defs recalc_defs coerceGuarded_def
      derivedValues_def)

text \<open>
  Claim C10. Without a manager context, \<^verbatim>\<open>recalculateEntry\<close> carries the stored
  \<open>manager_convenience\<close> of the entry to its output (a falsy value becomes \<open>0\<close>) and adds it
  into \<open>final_salary\<close>: an entry keeps a stale incentive.
\<close>

theorem stale_manager_convenience_without_context:
  assumes "r = recalculateEntry bonusRates entry contractualBaseSalary ratesMap
                 commissionTypeOverride None"
  shows "manager_convenience r = or0 (manager_convenience entry)
         \<and> final_salary r =
             or0 (basic_salary entry) + commission r + bonus r
             + or0 (manager_convenience entry) - total_deductions r
         \<and> (\<not> isNaN (manager_convenience entry) \<longrightarrow>
            manager_convenience r = manager_convenience entry)"
  unfolding assms
  by (simp add: recalculateEntry_def Let_def managerConvenience_def or0_number)

theorem stale_manager_convenience_without_context_witness:
  "\<not> isNaN (manager_convenience (exampleEntry \<lparr> manager_convenience := Num 300 \<rparr>))
   \<and> manager_convenience (recalculateEntry exampleBonusRates
        (exampleEntry \<lparr> manager_convenience := Num 300 \<rparr>) (Num 10400)
        DEFAULT_COMMISSION_RATES None None) = Num 300
   \<and> final_salary (recalculateEntry exampleBonusRates
        (exampleEntry \<lparr> manager_convenience := Num 300 \<rparr>) (Num 10400)
        DEFAULT_COMMISSION_RATES None None) = Num 10930"
  using stale_manager_convenience_without_context
    [OF refl, of exampleBonusRates "exampleEntry \<lparr> manager_convenience := Num 300 \<rparr>"
       "Num 10400" DEFAULT_COMMISSION_RATES None]
  by (simp add: example_defs recalc_defs)


section \<open>Properties of the account validator\<close>

lemma isDigit_not_isWhiteSpace: "isDigit c \<Longrightarrow> \<not> isWhiteSpace c"
  by (auto simp add: isDigit_def isWhiteSpace_def)

lemma trim_digits:
  assumes "digits t"
  shows "trim t = t"
proof -
  from assms have ne: "t \<noteq> []" and all: "\<forall>c \<in> set t. isDigit c"
    by (simp_all add: digits_def list_all_iff)
  from ne all have "\<not> isWhiteSpace (hd t)"
    by (simp add: isDigit_not_isWhiteSpace)
  then have front: "dropWhile isWhiteSpace t = t"
    by (simp add: dropWhile_eq_self_iff)
  from ne all have "\<not> isWhiteSpace (last t)"
    by (simp add: isDigit_not_isWhiteSpace)
  with ne have "dropWhile isWhiteSpace (rev t) = rev t"
    by (simp add: dropWhile_eq_self_iff hd_rev)
  with front show ?thesis
    by (simp add: trim_def)
qed

lemma Number_str_digits: "digits t \<Longrightarrow> Number_str t = Num (of_nat (decimalValue t))"
  by (simp add: Number_str_def trim_digits) (simp add: digits_def)

lemma monthDiff_parts:
  assumes "split_js CHR ''-'' openingDate = y # m # rest"
    and "split_js CHR ''-'' sheetMonth = y' # m' # rest'"
    and "digits y" "digits m" "digits y'" "digits m'"
  shows "monthDiff openingDate sheetMonth =
           Num ((of_nat (decimalValue y') - of_nat (decimalValue y)) * 12
                + (of_nat (decimalValue m') - of_nat (decimalValue m)))"
  using assms by (simp add: monthDiff_def element_def Number_str_digits)

text \<open>A well-formed opening date and sheet month give a month difference that is a number.\<close>

lemma monthDiff_number:
  assumes "wellFormedDate openingDate" and "wellFormedDate sheetMonth"
  shows "\<not> isNaN (monthDiff openingDate sheetMonth)"
proof -
  from assms(1) obtain y m rest where o: "split_js CHR ''-'' openingDate = y # m # rest"
    "digits y" "digits m"
    by (auto simp add: wellFormedDate_def split: list.splits)
  from assms(2) obtain y' m' rest' where s: "split_js CHR ''-'' sheetMonth = y' # m' # rest'"
    "digits y'" "digits m'"
    by (auto simp add: wellFormedDate_def split: list.splits)
  from o s show ?thesis
    by (simp add: monthDiff_parts)
qed



lemma validateAccount_cases:
  "validateAccount code employeeId' branchId' sheetMonth allAccounts =
     (case matchedAccount code allAccounts of
        None \<Rightarrow> Rejected ''Account not found''
      | Some ac \<Rightarrow>
          if opened_by_employee_id ac \<noteq> employeeId' then Rejected ''Belongs to another employee''
          else if branch_id ac \<noteq> branchId' then Rejected ''Branch mismatch''
          else if is_counted ac \<and> counted_month ac = Some sheetMonth then
            Rejected ''Already scanned in this sheet''
          else if is_counted ac then Rejected (''Used in '' @ usedIn ac)
          else if collection_amount ac < Num 600 then Rejected ''Not Eligible: Collection < 600''
          else if monthDiff (opening_date ac) sheetMonth < Num 0 then
            Rejected ''Error: Account opened after sheet month''
          else if Num 2 < monthDiff (opening_date ac) sheetMonth then
            Rejected ''Expired: 2-month bonus window passed''
          else Ok ac)"
  by (simp add: validateAccount_def matchedAccount_def usedIn_def Let_def
      split: option.split)







text \<open>
  Claim C7. \<^verbatim>\<open>validateAccount\<close> tests its reasons in the order not found, other employee,
  other branch, already counted, amount below 600, time window, and answers with the first
  that fails: each reason is returned exactly when every earlier test passed and its own
  test failed. A counted account that passed the tests before is rejected with
  \<^verbatim>\<open>Already scanned in this sheet\<close> when it was counted in the sheet month and with
  \<^verbatim>\<open>Used in\<close> and the month otherwise; a counted account is never returned.
\<close>

theorem validateAccount_first_failing_reason:
  fixes code employeeId' branchId' sheetMonth allAccounts
  defines "result \<equiv> validateAccount code employeeId' branchId' sheetMonth allAccounts"
    and "found \<equiv> matchedAccount code allAccounts"
  shows "(result = Rejected ''Account not found'' \<longleftrightarrow> found = None)
     \<and> (result = Rejected ''Belongs to another employee'' \<longleftrightarrow>
          (\<exists>ac. found = Some ac \<and> opened_by_employee_id ac \<noteq> employeeId'))
     \<and> (result = Rejected ''Branch mismatch'' \<longleftrightarrow>
          (\<exists>ac. found = Some ac \<and> opened_by_employee_id ac = employeeId'
                \<and> branch_id ac \<noteq> branchId'))
     \<and> (result = Rejected ''Already scanned in this sheet'' \<longleftrightarrow>
          (\<exists>ac. found = Some ac \<and> opened_by_employee_id ac = employeeId'
                \<and> branch_id ac = branchId' \<and> is_counted ac
                \<and> counted_month ac = Some sheetMonth))
     \<and> (\<forall>ac. found = Some ac \<and> opened_by_employee_id ac = employeeId'
              \<and> branch_id ac = branchId' \<and> is_counted ac
              \<and> counted_month ac \<noteq> Some sheetMonth \<longrightarrow>
            result = Rejected (''Used in '' @ usedIn ac))
     \<and> (result = Rejected ''Not Eligible: Collection < 600'' \<longleftrightarrow>
          (\<exists>ac. found = Some ac \<and> opened_by_employee_id ac = employeeId'
                \<and> branch_id ac = branchId' \<and> \<not> is_counted ac
                \<and> collection_amount ac < Num 600))
     \<and> (result = Rejected ''Error: Account opened after sheet month'' \<longleftrightarrow>
          (\<exists>ac. found = Some ac \<and> opened_by_employee_id ac = employeeId'
                \<and> branch_id ac = branchId' \<and> \<not> is_counted ac
                \<and> \<not> collection_amount ac < Num 600
                \<and> monthDiff (opening_date ac) sheetMonth < Num 0))
     \<and> (result = Rejected ''Expired: 2-month bonus window passed'' \<longleftrightarrow>
          (\<exists>ac. found = Some ac \<and> opened_by_employee_id ac = employeeId'
                \<and> branch_id ac = branchId' \<and> \<not> is_counted ac
                \<and> \<not> collection_amount ac < Num 600
                \<and> \<not> monthDiff (opening_date ac) sheetMonth < Num 0
                \<and> Num 2 < monthDiff (opening_date ac) sheetMonth))
     \<and> (\<forall>ac. found = Some ac \<and> is_counted ac \<longrightarrow> (\<exists>reason. result = Rejected reason))
     \<and> (\<forall>ac. result = Ok ac \<longrightarrow> found = Some ac \<and> \<not> is_counted ac)"
  unfolding result_def found_def validateAccount_cases
  by (cases "matchedAccount code allAccounts") auto

lemma countedAccount_fields:
  "opened_by_employee_id countedAccount = ''emp1''"
  "branch_id countedAccount = ''b1''"
  "is_counted countedAccount"
  "counted_month countedAccount = Some ''2024-02''"
  "usedIn countedAccount = ''2024-02''"
  by (simp_all add: countedAccount_def exampleAccount_def usedIn_def)

lemma countedAccount_matched:
  "matchedAccount ''AC-1001'' [countedAccount] = Some countedAccount"
  by (simp add: matchedAccount_def countedAccount_def exampleAccount_def
      toLowerCase_def toLowerChar_def trim_def isWhiteSpace_def)

theorem validateAccount_first_failing_reason_witness:
  "matchedAccount ''AC-1001'' [countedAccount] = Some countedAccount
   \<and> opened_by_employee_id countedAccount = ''emp1''
   \<and> branch_id countedAccount = ''b1''
   \<and> is_counted countedAccount
   \<and> counted_month countedAccount \<noteq> Some ''2024-03''
   \<and> validateAccount ''AC-1001'' ''emp1'' ''b1'' ''2024-03'' [countedAccount]
       = Rejected ''Used in 2024-02''
   \<and> validateAccount ''AC-1001'' ''emp1'' ''b1'' ''2024-02'' [countedAccount]
       = Rejected ''Already scanned in this sheet''
   \<and> validateAccount ''AC-1001'' ''emp2'' ''b1'' ''2024-02'' [countedAccount]
       = Rejected ''Belongs to another employee''"
proof -
  note facts = countedAccount_matched countedAccount_fields
  have other: "counted_month countedAccount \<noteq> Some ''2024-03''"
    by (simp add: countedAccount_fields)
  have "validateAccount ''AC-1001'' ''emp1'' ''b1'' ''2024-03'' [countedAccount]
          = Rejected (''Used in '' @ usedIn countedAccount)"
    using validateAccount_first_failing_reason
      [where code = "''AC-1001''" and allAccounts = "[countedAccount]"
         and employeeId' = "''emp1''" and branchId' = "''b1''" and sheetMonth = "''2024-03''"]
      facts other
    by simp
  moreover have "validateAccount ''AC-1001'' ''emp1'' ''b1'' ''2024-02'' [countedAccount]
          = Rejected ''Already scanned in this sheet''"
    using validateAccount_first_failing_reason
      [where code = "''AC-1001''" and allAccounts = "[countedAccount]"
         and employeeId' = "''emp1''" and branchId' = "''b1''" and sheetMonth = "''2024-02''"]
      facts
    by simp
  moreover have "opened_by_employee_id countedAccount \<noteq> ''emp2''"
    by (simp add: countedAccount_fields)
  then have "validateAccount ''AC-1001'' ''emp2'' ''b1'' ''2024-02'' [countedAccount]
          = Rejected ''Belongs to another employee''"
    using validateAccount_first_failing_reason
      [where code = "''AC-1001''" and allAccounts = "[countedAccount]"
         and employeeId' = "''emp2''" and branchId' = "''b1''" and sheetMonth = "''2024-02''"]
      facts
    by simp
  ultimately show ?thesis
    using facts other by simp
qed


section \<open>Properties of center ownership and of the aggregation\<close>

text \<open>The key of the center map determines the branch and the code when codes are not negative.\<close>

lemma digitChar_isDigit: "d < 10 \<Longrightarrow> isDigit (digitChar d)"
proof -
  assume "d < 10"
  then have "d \<in> {0, 1, 2, 3, 4, 5, 6, 7, 8, 9}" by auto
  then show ?thesis
    by (auto simp add: digitChar_def isDigit_def)
qed

lemma digitValue_digitChar: "d < 10 \<Longrightarrow> digitValue (digitChar d) = d"
proof -
  assume "d < 10"
  then have "d \<in> {0, 1, 2, 3, 4, 5, 6, 7, 8, 9}" by auto
  then show ?thesis
    by (auto simp add: digitChar_def digitValue_def)
qed

lemma digitsOfNat_isDigit: "list_all isDigit (digitsOfNat n)"
proof (induction n rule: digitsOfNat.induct)
  case (1 n)
  show ?case
  proof (cases "n < 10")
    case True
    then show ?thesis
      by (subst digitsOfNat.simps) (simp add: digitChar_isDigit)
  next
    case False
    with 1 show ?thesis
      by (subst digitsOfNat.simps) (simp add: digitChar_isDigit)
  qed
qed

lemma decimalValue_snoc: "decimalValue (s @ [c]) = 10 * decimalValue s + digitValue c"
  by (simp add: decimalValue_def)

lemma decimalValue_digitsOfNat: "decimalValue (digitsOfNat n) = n"
proof (induction n rule: digitsOfNat.induct)
  case (1 n)
  show ?case
  proof (cases "n < 10")
    case True
    then show ?thesis
      by (subst digitsOfNat.simps) (simp add: decimalValue_def digitValue_digitChar)
  next
    case False
    with 1 have "decimalValue (digitsOfNat (n div 10)) = n div 10"
      by simp
    with False show ?thesis
      by (subst digitsOfNat.simps) (simp add: decimalValue_snoc digitValue_digitChar)
  qed
qed

lemma digitsOfNat_inject: "digitsOfNat m = digitsOfNat n \<Longrightarrow> m = n"
  by (metis decimalValue_digitsOfNat)

lemma String_int_nonneg: "0 \<le> n \<Longrightarrow> String_int n = digitsOfNat (nat n)"
  by (simp add: String_int_def)

lemma minus_not_digit: "\<not> isDigit CHR ''-''"
  by (simp add: isDigit_def)

lemma key_split_unique:
  assumes "b @ CHR ''-'' # d = b' @ CHR ''-'' # d'"
    and "list_all isDigit d" and "list_all isDigit d'"
  shows "b = b' \<and> d = d'"
proof -
  from assms(1) have "rev d @ CHR ''-'' # rev b = rev d' @ CHR ''-'' # rev b'"
    by (metis rev_append rev.simps(2) append_Cons append_Nil append_assoc)
  then have "takeWhile isDigit (rev d @ CHR ''-'' # rev b)
             = takeWhile isDigit (rev d' @ CHR ''-'' # rev b')"
    by simp
  moreover have "takeWhile isDigit (rev d @ CHR ''-'' # rev b) = rev d"
    using assms(2) by (simp add: takeWhile_tail minus_not_digit list_all_iff)
  moreover have "takeWhile isDigit (rev d' @ CHR ''-'' # rev b') = rev d'"
    using assms(3) by (simp add: takeWhile_tail minus_not_digit list_all_iff)
  ultimately have "d = d'"
    by simp
  with assms(1) show ?thesis
    by simp
qed

lemma centerKey_inject:
  assumes "centerKey b n = centerKey b' n'" and "0 \<le> n" and "0 \<le> n'"
  shows "b = b' \<and> n = n'"
proof -
  from assms have "b @ CHR ''-'' # digitsOfNat (nat n) = b' @ CHR ''-'' # digitsOfNat (nat n')"
    by (simp add: centerKey_def String_int_nonneg)
  then have "b = b' \<and> digitsOfNat (nat n) = digitsOfNat (nat n')"
    by (rule key_split_unique) (rule digitsOfNat_isDigit)+
  with assms(2,3) show ?thesis
    by (auto dest: digitsOfNat_inject)
qed

lemma centerMap_foldl_lookup:
  "foldl setCenter m0 cs k = Some c
   \<Longrightarrow> (c \<in> set cs \<and> centerKey (Center.branchId c) (Center.centerCode c) = k) \<or> m0 k = Some c"
proof (induction cs arbitrary: m0)
  case Nil
  then show ?case by simp
next
  case (Cons a cs)
  from Cons.prems have "foldl setCenter (setCenter m0 a) cs k = Some c"
    by simp
  then have "(c \<in> set cs \<and> centerKey (Center.branchId c) (Center.centerCode c) = k)
             \<or> setCenter m0 a k = Some c"
    by (rule Cons.IH)
  then show ?case
  proof
    assume "c \<in> set cs \<and> centerKey (Center.branchId c) (Center.centerCode c) = k"
    then show ?thesis by simp
  next
    assume "setCenter m0 a k = Some c"
    then show ?thesis
      by (cases "centerKey (Center.branchId a) (Center.centerCode a) = k")
         (auto simp add: setCenter_def)
  qed
qed

lemma centerMap_Some:
  "centerMap centers k = Some c \<Longrightarrow>
   c \<in> set centers \<and> centerKey (Center.branchId c) (Center.centerCode c) = k"
  using centerMap_foldl_lookup [of Map.empty centers k c] by (simp add: centerMap_def)

lemma centerMap_foldl_defined:
  "c \<in> set cs \<or> m0 (centerKey (Center.branchId c) (Center.centerCode c)) \<noteq> None \<Longrightarrow>
   foldl setCenter m0 cs (centerKey (Center.branchId c) (Center.centerCode c)) \<noteq> None"
proof (induction cs arbitrary: m0)
  case Nil
  then show ?case by simp
next
  case (Cons a cs)
  from Cons.prems have
    "c \<in> set cs
     \<or> setCenter m0 a (centerKey (Center.branchId c) (Center.centerCode c)) \<noteq> None"
    by (auto simp add: setCenter_def)
  then have "foldl setCenter (setCenter m0 a) cs
               (centerKey (Center.branchId c) (Center.centerCode c)) \<noteq> None"
    by (rule Cons.IH)
  then show ?case by simp
qed

lemma centerMap_defined:
  "c \<in> set centers \<Longrightarrow>
   centerMap centers (centerKey (Center.branchId c) (Center.centerCode c)) \<noteq> None"
  using centerMap_foldl_defined [of c centers Map.empty] by (simp add: centerMap_def)

lemma centerMap_master:
  assumes "c \<in> set centers" and "uniqueCenters centers" and "nonNegativeCodes centers"
  shows "centerMap centers (centerKey (Center.branchId c) (Center.centerCode c)) = Some c"
proof -
  from assms(1) obtain c' where
    l: "centerMap centers (centerKey (Center.branchId c) (Center.centerCode c)) = Some c'"
    using centerMap_defined by fastforce
  then have m: "c' \<in> set centers"
    and k: "centerKey (Center.branchId c') (Center.centerCode c')
            = centerKey (Center.branchId c) (Center.centerCode c)"
    by (simp_all add: centerMap_Some)
  from m assms(1,3) have "0 \<le> Center.centerCode c'" "0 \<le> Center.centerCode c"
    by (simp_all add: nonNegativeCodes_def)
  with k have "Center.branchId c' = Center.branchId c \<and> Center.centerCode c' = Center.centerCode c"
    by (rule centerKey_inject)
  with m assms(1,2) have "c' = c"
    by (simp add: uniqueCenters_def)
  with l show ?thesis
    by simp
qed

lemma centerMap_no_master:
  assumes "\<forall>c \<in> set centers.
             \<not> (Center.branchId c = b \<and> Center.centerCode c = n)"
    and "nonNegativeCodes centers" and "0 \<le> n"
  shows "centerMap centers (centerKey b n) = None"
proof (rule ccontr)
  assume "centerMap centers (centerKey b n) \<noteq> None"
  then obtain c where "centerMap centers (centerKey b n) = Some c"
    by auto
  then have m: "c \<in> set centers"
    and k: "centerKey (Center.branchId c) (Center.centerCode c) = centerKey b n"
    by (simp_all add: centerMap_Some)
  from m assms(2) have "0 \<le> Center.centerCode c"
    by (simp add: nonNegativeCodes_def)
  with k assms(3) have "Center.branchId c = b \<and> Center.centerCode c = n"
    by (intro centerKey_inject)
  with m assms(1) show False
    by blast
qed

lemma find_master:
  assumes "c \<in> set centers" and "uniqueCenters centers"
  shows "find (\<lambda>c'. Center.centerCode c' = Center.centerCode c
                    \<and> Center.branchId c' = Center.branchId c) centers = Some c"
proof -
  from assms(1) obtain c' where
    f: "find (\<lambda>c'. Center.centerCode c' = Center.centerCode c
                    \<and> Center.branchId c' = Center.branchId c) centers = Some c'"
    by (cases "find (\<lambda>c'. Center.centerCode c' = Center.centerCode c
                    \<and> Center.branchId c' = Center.branchId c) centers")
       (auto simp add: find_None_iff)
  then have "c' \<in> set centers \<and> Center.centerCode c' = Center.centerCode c
             \<and> Center.branchId c' = Center.branchId c"
    by (auto simp add: find_Some_iff)
  with assms have "c' = c"
    by (simp add: uniqueCenters_def)
  with f show ?thesis
    by simp
qed

text \<open>
  Claim C6. When the branch and the code of a collection record match a center of the
  master list whose type is set to \<^verbatim>\<open>OFFICE\<close>, the record is classified \<^verbatim>\<open>OFFICE\<close>, by the
  salary grid and by \<^verbatim>\<open>getCenterType\<close>, whoever collected, the employee the center is
  assigned to included.
\<close>

theorem explicit_office_center_wins:
  assumes "c \<in> set centers"
    and "Center.branchId c = branchId r"
    and "Center.centerCode c = centerCode r"
    and "Center.type c = Some OFFICE"
    and "uniqueCenters centers"
    and "nonNegativeCodes centers"
  shows "\<not> isOwn centers collectingEmpId r
         \<and> getCenterType centers isNewCenter newCenterType (centerCode r) (branchId r)
              collectingEmpId = OFFICE"
proof -
  from assms(1,5,6) have
    "centerMap centers (centerKey (Center.branchId c) (Center.centerCode c)) = Some c"
    by (rule centerMap_master)
  with assms(2,3,4) have grid: "\<not> isOwn centers collectingEmpId r"
    by (simp add: isOwn_def)
  from assms(1,5) have
    "find (\<lambda>c'. Center.centerCode c' = Center.centerCode c
                 \<and> Center.branchId c' = Center.branchId c) centers = Some c"
    by (rule find_master)
  with assms(2,3,4) have
    "getCenterType centers isNewCenter newCenterType (centerCode r) (branchId r)
       collectingEmpId = OFFICE"
    by (simp add: getCenterType_def)
  with grid show ?thesis
    by simp
qed

theorem explicit_office_center_wins_witness:
  "officeCenter \<in> set [officeCenter]
   \<and> Center.branchId officeCenter = branchId exampleRecord
   \<and> Center.centerCode officeCenter = centerCode exampleRecord
   \<and> Center.type officeCenter = Some OFFICE
   \<and> uniqueCenters [officeCenter]
   \<and> nonNegativeCodes [officeCenter]
   \<and> assignedEmployeeId officeCenter = employeeId exampleRecord
   \<and> \<not> isOwn [officeCenter] (employeeId exampleRecord) exampleRecord
   \<and> getCenterType [officeCenter] False OWN (centerCode exampleRecord)
         (branchId exampleRecord) (employeeId exampleRecord) = OFFICE"
proof -
  have h: "officeCenter \<in> set [officeCenter]"
    "Center.branchId officeCenter = branchId exampleRecord"
    "Center.centerCode officeCenter = centerCode exampleRecord"
    "Center.type officeCenter = Some OFFICE"
    "uniqueCenters [officeCenter]"
    "nonNegativeCodes [officeCenter]"
    by (simp_all add: officeCenter_def exampleRecord_def uniqueCenters_def
        nonNegativeCodes_def)
  have "assignedEmployeeId officeCenter = employeeId exampleRecord"
    by (simp add: officeCenter_def exampleRecord_def)
  with h explicit_office_center_wins
         [OF h, of "employeeId exampleRecord" False OWN]
  show ?thesis
    by simp
qed

lemma Number_str_natural: "Number_str s = Num q \<Longrightarrow> \<exists>n. q = of_nat n"
proof -
  assume "Number_str s = Num q"
  then have "q = 0 \<or> q = of_nat (decimalValue (trim s))"
    by (auto simp add: Number_str_def Let_def split: if_splits)
  then show ?thesis
    by (metis of_nat_0)
qed

lemma getCollectionsRow_type:
  assumes "getCollectionsRow index row = Some r"
  shows "type r = parityType (centerCode r) \<and> 0 \<le> centerCode r"
proof -
  from assms obtain q where q: "Number_str (row ! 4) = Num q" and c: "centerCode r = \<lfloor>q\<rfloor>"
    and t: "type r = (if \<lfloor>q\<rfloor> mod 2 \<noteq> 0 then OWN else OFFICE)"
    by (auto simp add: getCollectionsRow_def Let_def split: if_splits jsnum.splits)
  from q obtain n where "q = of_nat n"
    using Number_str_natural by blast
  then have "0 \<le> \<lfloor>q\<rfloor>"
    by simp
  with c t show ?thesis
    by (simp add: parityType_def)
qed

lemma getCollections_type:
  assumes "Some r \<in> set (getCollections rows)"
  shows "type r = parityType (centerCode r) \<and> 0 \<le> centerCode r"
proof -
  from assms obtain index row where "getCollectionsRow index row = Some r"
    by (auto simp add: getCollections_def)
  then show ?thesis
    by (rule getCollectionsRow_type)
qed

lemma exampleRows_loaded: "getCollections exampleRows = [Some loadedRecord]"
  by (simp add: getCollections_def getCollectionsRow_def exampleRows_def loadedRecord_def
      Number_cell_def Let_def string_defs)

text \<open>
  Claim C9 says that a record without a center in the master list is classified by the
  parity of its code. \<^verbatim>\<open>getCenterType\<close> does so only when no new center is being created:
  while the entry form holds a new center, it answers with the type chosen in the form,
  here \<^verbatim>\<open>OFFICE\<close> for the odd code 105 that neither center of the master list has.
\<close>

theorem unregistered_odd_center_not_own:
  "parityType 105 = OWN
   \<and> map Center.centerCode [officeCenter, ownCenter] = [101, 103]
   \<and> centerMap [officeCenter, ownCenter] (centerKey ''b1'' 105) = None
   \<and> getCenterType [officeCenter, ownCenter] True OFFICE 105 ''b1'' ''emp1'' = OFFICE"
  by (simp add: parityType_def getCenterType_def centerMap_def setCenter_def centerKey_def
      String_int_def digitsOfNat.simps digitChar_def officeCenter_def ownCenter_def)

text \<open>
  Claim C9, as amended. For a collection record read by \<^verbatim>\<open>getCollections\<close> whose branch and
  code match no center of the master list, the salary grid classifies by the parity of the
  code, odd as own and even as office (it reads the type stored on the record, which
  \<^verbatim>\<open>getCollections\<close> sets from that parity); \<^verbatim>\<open>getCenterType\<close> answers with the same parity
  rule when no new center is being created, and with the type chosen in the entry form
  while one is.
\<close>

theorem unregistered_center_fallback:
  assumes "Some r \<in> set (getCollections rows)"
    and "\<forall>c \<in> set centers.
           \<not> (Center.branchId c = branchId r \<and> Center.centerCode c = centerCode r)"
    and "nonNegativeCodes centers"
  shows "(isOwn centers collectingEmpId r \<longleftrightarrow> centerCode r mod 2 \<noteq> 0)
         \<and> getCenterType centers isNewCenter newCenterType (centerCode r) (branchId r)
              collectingEmpId
            = (if isNewCenter then newCenterType
               else if centerCode r mod 2 \<noteq> 0 then OWN else OFFICE)"
proof -
  from assms(1) have loaded: "type r = parityType (centerCode r)" and code: "0 \<le> centerCode r"
    by (simp_all add: getCollections_type)
  from assms(2,3) code have "centerMap centers (centerKey (branchId r) (centerCode r)) = None"
    by (rule centerMap_no_master)
  then have "isOwn centers collectingEmpId r \<longleftrightarrow> type r = OWN"
    by (simp add: isOwn_def)
  with loaded have grid: "isOwn centers collectingEmpId r \<longleftrightarrow> centerCode r mod 2 \<noteq> 0"
    by (simp add: parityType_def)
  from assms(2) have
    "find (\<lambda>c. Center.centerCode c = centerCode r \<and> Center.branchId c = branchId r) centers
       = None"
    by (auto simp add: find_None_iff)
  then have "getCenterType centers isNewCenter newCenterType (centerCode r) (branchId r)
              collectingEmpId
            = (if isNewCenter then newCenterType
               else if centerCode r mod 2 \<noteq> 0 then OWN else OFFICE)"
    by (simp add: getCenterType_def)
  with grid show ?thesis
    by simp
qed

theorem unregistered_center_fallback_witness:
  "Some loadedRecord \<in> set (getCollections exampleRows)
   \<and> \<not> (\<exists>c \<in> set [officeCenter, ownCenter].
          Center.branchId c = branchId loadedRecord
          \<and> Center.centerCode c = centerCode loadedRecord)
   \<and> nonNegativeCodes [officeCenter, ownCenter]
   \<and> centerCode loadedRecord = 105
   \<and> isOwn [officeCenter, ownCenter] ''emp1'' loadedRecord
   \<and> getCenterType [officeCenter, ownCenter] False OFFICE (centerCode loadedRecord)
        (branchId loadedRecord) ''emp1'' = OWN
   \<and> getCenterType [officeCenter, ownCenter] True OFFICE (centerCode loadedRecord)
        (branchId loadedRecord) ''emp1'' = OFFICE"
proof -
  have h1: "Some loadedRecord \<in> set (getCollections exampleRows)"
    by (simp add: exampleRows_loaded)
  have h2: "\<forall>c \<in> set [officeCenter, ownCenter].
           \<not> (Center.branchId c = branchId loadedRecord
              \<and> Center.centerCode c = centerCode loadedRecord)"
    by (simp add: officeCenter_def ownCenter_def loadedRecord_def)
  have h3: "nonNegativeCodes [officeCenter, ownCenter]"
    by (simp add: nonNegativeCodes_def officeCenter_def ownCenter_def)
  have code: "centerCode loadedRecord = 105" "centerCode loadedRecord mod 2 \<noteq> 0"
    by (simp_all add: loadedRecord_def)
  from unregistered_center_fallback [OF h1 h2 h3, of "''emp1''" False OFFICE]
    unregistered_center_fallback [OF h1 h2 h3, of "''emp1''" True OFFICE]
    h1 h2 h3 code
  show ?thesis
    by simp
qed

lemma pushRecords_filter:
  "pushRecords decide rs (ownRecords, offRecords) =
     (ownRecords @ filter decide rs, offRecords @ filter (\<lambda>r. \<not> decide r) rs)"
  by (induction rs arbitrary: ownRecords offRecords) simp_all

lemma reduce_sum:
  fixes z :: jsnum
  shows "foldl (\<lambda>sum r. sum + g r) z rs = z + sum_list (map g rs)"
  by (induction rs arbitrary: z) (simp_all add: add.assoc)

lemma sum_list_split:
  fixes g :: "'a \<Rightarrow> jsnum"
  shows "sum_list (map g rs) =
           sum_list (map g (filter P rs)) + sum_list (map g (filter (\<lambda>r. \<not> P r) rs))"
  by (induction rs) (simp_all add: ac_simps)

lemma setSize_card: "setSize (map f rs) = card (f ` set rs)"
  by (simp add: setSize_def length_remdups_card_conv)

lemma currentMonthRecords_filter:
  "currentMonthRecords centerRecords selectedMonth entryEmployeeId =
     filter (\<lambda>r. employeeId r = entryEmployeeId \<and> startsWith (createdAt r) selectedMonth)
       centerRecords"
  by (simp add: currentMonthRecords_def conj_commute)

text \<open>
  Claim C8. Over the records of the employee of an entry that were created in the selected
  month, the aggregation sums the amounts of the records classified own and of those
  classified office, counts the distinct center codes of each class (at most the number of
  its records), and sums the loan amounts of all of them, of both classes and whatever
  master list classifies them, into \<open>total_loan_collection\<close>.
\<close>

theorem collection_aggregation:
  fixes centers centerRecords selectedMonth entry
  defines "e \<equiv> aggregateCollections centers centerRecords selectedMonth entry"
    and "matched \<equiv>
           filter (\<lambda>r. employeeId r = employee_id entry
                        \<and> startsWith (createdAt r) selectedMonth) centerRecords"
    and "isOwnRecord \<equiv> isOwn centers (employee_id entry)"
  shows "own_somity_collection e = sum_list (map amount (filter isOwnRecord matched))
     \<and> office_somity_collection e
         = sum_list (map amount (filter (\<lambda>r. \<not> isOwnRecord r) matched))
     \<and> own_somity_count e
         = Num (of_nat (card (centerCode ` set (filter isOwnRecord matched))))
     \<and> office_somity_count e
         = Num (of_nat (card (centerCode ` set (filter (\<lambda>r. \<not> isOwnRecord r) matched))))
     \<and> card (centerCode ` set (filter isOwnRecord matched))
         \<le> length (filter isOwnRecord matched)
     \<and> card (centerCode ` set (filter (\<lambda>r. \<not> isOwnRecord r) matched))
         \<le> length (filter (\<lambda>r. \<not> isOwnRecord r) matched)
     \<and> total_loan_collection e = sum_list (map (\<lambda>r. or0_opt (loanAmount r)) matched)
     \<and> total_loan_collection e
         = sum_list (map (\<lambda>r. or0_opt (loanAmount r)) (filter isOwnRecord matched))
           + sum_list (map (\<lambda>r. or0_opt (loanAmount r))
               (filter (\<lambda>r. \<not> isOwnRecord r) matched))
     \<and> (\<forall>centers'. total_loan_collection
            (aggregateCollections centers' centerRecords selectedMonth entry)
          = total_loan_collection e)"
proof -
  have loan: "total_loan_collection
      (aggregateCollections cs centerRecords selectedMonth entry)
      = sum_list (map (\<lambda>r. or0_opt (loanAmount r)) matched)" for cs
    by (simp add: aggregateCollections_def Let_def pushRecords_filter reduce_sum
        currentMonthRecords_filter matched_def zero_jsnum_def [symmetric])
  have own: "own_somity_collection e = sum_list (map amount (filter isOwnRecord matched))"
    and off: "office_somity_collection e
         = sum_list (map amount (filter (\<lambda>r. \<not> isOwnRecord r) matched))"
    and ownc: "own_somity_count e
         = Num (of_nat (card (centerCode ` set (filter isOwnRecord matched))))"
    and offc: "office_somity_count e
         = Num (of_nat (card (centerCode ` set (filter (\<lambda>r. \<not> isOwnRecord r) matched))))"
    unfolding e_def matched_def isOwnRecord_def
    by (simp_all add: aggregateCollections_def Let_def pushRecords_filter reduce_sum
        currentMonthRecords_filter setSize_card zero_jsnum_def [symmetric])
  have c1: "card (centerCode ` set (filter isOwnRecord matched))
         \<le> length (filter isOwnRecord matched)"
    by (metis card_image_le card_length le_trans List.finite_set)
  have c2: "card (centerCode ` set (filter (\<lambda>r. \<not> isOwnRecord r) matched))
         \<le> length (filter (\<lambda>r. \<not> isOwnRecord r) matched)"
    by (metis card_image_le card_length le_trans List.finite_set)
  have l1: "total_loan_collection e = sum_list (map (\<lambda>r. or0_opt (loanAmount r)) matched)"
    unfolding e_def by (rule loan)
  have l2: "sum_list (map (\<lambda>r. or0_opt (loanAmount r)) matched)
           = sum_list (map (\<lambda>r. or0_opt (loanAmount r)) (filter isOwnRecord matched))
           + sum_list (map (\<lambda>r. or0_opt (loanAmount r))
               (filter (\<lambda>r. \<not> isOwnRecord r) matched))"
    by (rule sum_list_split)
  have l3: "\<forall>centers'. total_loan_collection
            (aggregateCollections centers' centerRecords selectedMonth entry)
          = total_loan_collection e"
    unfolding e_def by (simp add: loan)
  from own off ownc offc c1 c2 l1 l2 l3 show ?thesis
    by simp
qed

lemma exampleKeys:
  "centerKey ''b1'' 101 = ''b1-101''" "centerKey ''b1'' 103 = ''b1-103''"
  by (simp_all add: centerKey_def String_int_def digitsOfNat.simps digitChar_def)

lemma exampleCenterMap:
  "centerMap [officeCenter, ownCenter] ''b1-101'' = Some officeCenter"
  "centerMap [officeCenter, ownCenter] ''b1-103'' = Some ownCenter"
  by (simp_all add: centerMap_def setCenter_def ownCenter_def officeCenter_def exampleKeys)

lemma exampleIsOwn:
  "isOwn [officeCenter, ownCenter] ''emp1'' ownRecord1"
  "isOwn [officeCenter, ownCenter] ''emp1'' ownRecord2"
  "\<not> isOwn [officeCenter, ownCenter] ''emp1'' officeRecord"
  by (simp_all add: isOwn_def record_defs exampleKeys exampleCenterMap)
     (simp_all add: ownCenter_def officeCenter_def)

theorem collection_aggregation_example:
  "own_somity_collection (aggregateCollections [officeCenter, ownCenter] exampleRecords
      ''2024-03'' exampleEntry) = Num 800
   \<and> own_somity_count (aggregateCollections [officeCenter, ownCenter] exampleRecords
      ''2024-03'' exampleEntry) = Num 1
   \<and> office_somity_collection (aggregateCollections [officeCenter, ownCenter] exampleRecords
      ''2024-03'' exampleEntry) = Num 400
   \<and> office_somity_count (aggregateCollections [officeCenter, ownCenter] exampleRecords
      ''2024-03'' exampleEntry) = Num 1
   \<and> total_loan_collection (aggregateCollections [officeCenter, ownCenter] exampleRecords
      ''2024-03'' exampleEntry) = Num 250"
proof -
  have emp: "employee_id exampleEntry = ''emp1''"
    by (simp add: exampleEntry_def createEmptyEntry_def)
  have matched: "filter (\<lambda>r. employeeId r = ''emp1'' \<and> startsWith (createdAt r) ''2024-03'')
      exampleRecords = [ownRecord1, ownRecord2, officeRecord]"
    by (simp add: exampleRecords_def record_defs startsWith_def)
  have fields: "amount ownRecord1 = Num 500" "amount ownRecord2 = Num 300"
    "amount officeRecord = Num 400" "centerCode ownRecord1 = 103"
    "centerCode ownRecord2 = 103" "centerCode officeRecord = 101"
    "loanAmount ownRecord1 = Some (Num 200)" "loanAmount ownRecord2 = None"
    "loanAmount officeRecord = Some (Num 50)"
    by (simp_all add: record_defs)
  show ?thesis
    using collection_aggregation
      [of "[officeCenter, ownCenter]" exampleRecords "''2024-03''" exampleEntry]
    by (simp add: emp matched exampleIsOwn fields)
qed


end
